theory Spec2Isabelle
  imports Complex_Main
begin

section \<open>Spatial tiling of sopa: \<open>src/sopa/patching.py\<close>\<close>

text \<open>
  Python numbers (\<open>int\<close> and \<open>float\<close>) are modelled as exact reals; \<open>math.ceil\<close> and
  \<open>int(...)\<close> return Python integers, modelled as \<open>int\<close>. Exceptions are values of the
  type \<open>error\<close>; a function that may raise returns \<open>error + 'a\<close> with \<open>Inl\<close> the
  exception. \<open>assert\<close> raises \<open>AssertionError\<close>, a division by zero raises
  \<open>ZeroDivisionError\<close>, an unrecognised element raises \<open>ValueError\<close>.
\<close>

datatype error = ZeroDivisionError | AssertionError | ValueError

subsection \<open>\<open>Patches1D\<close>\<close>

text \<open>The attributes of a \<open>Patches1D\<close> object; \<open>count_stored\<close> is the attribute \<open>_count\<close>.\<close>

record Patches1D =
  xmin :: real
  xmax :: real
  delta :: real
  patch_width :: real
  patch_overlap :: real
  int_coords :: bool
  count_stored :: int

text \<open>\<open>Patches1D.count\<close>: the true division raises when the divisor is zero.\<close>

definition count :: "Patches1D \<Rightarrow> error + int" where
  "count p =
     (if patch_width p \<ge> delta p then Inr 1
      else if patch_width p - patch_overlap p = 0 then Inl ZeroDivisionError
      else Inr \<lceil>(delta p - patch_overlap p) / (patch_width p - patch_overlap p)\<rceil>)"

text \<open>\<open>Patches1D.__init__\<close>: the last statement stores \<open>self.count()\<close> in \<open>_count\<close>.\<close>

definition Patches1D_init :: "real \<Rightarrow> real \<Rightarrow> real \<Rightarrow> real \<Rightarrow> bool \<Rightarrow> error + Patches1D" where
  "Patches1D_init lo hi w ov ic =
     (let p = \<lparr>xmin = lo, xmax = hi, delta = hi - lo, patch_width = w,
                patch_overlap = ov, int_coords = ic, count_stored = 0\<rparr>
      in case count p of
           Inl e \<Rightarrow> Inl e
         | Inr c \<Rightarrow> Inr (p\<lparr>count_stored := c\<rparr>))"

text \<open>
  \<open>Patches1D.update\<close> assigns the attribute first and asserts afterwards. The result is
  the outcome of the call (\<open>Inl\<close> the exception raised) paired with the object as the
  call leaves it.
\<close>

definition update :: "Patches1D \<Rightarrow> real \<Rightarrow> (error + unit) \<times> Patches1D" where
  "update p w =
     (let p' = p\<lparr>patch_width := w\<rparr>
      in case count p' of
           Inl e \<Rightarrow> (Inl e, p')
         | Inr c \<Rightarrow> if count_stored p' = c then (Inr (), p') else (Inl AssertionError, p'))"

text \<open>\<open>Patches1D.tight_width\<close>: a true division by \<open>_count\<close>, then \<open>ceil\<close>.\<close>

definition tight_width :: "Patches1D \<Rightarrow> error + int" where
  "tight_width p =
     (if count_stored p = 0 then Inl ZeroDivisionError
      else Inr \<lceil>(delta p + (of_int (count_stored p) - 1) * patch_overlap p)
                 / of_int (count_stored p)\<rceil>)"

text \<open>Python's \<open>int(v)\<close> on a number: the fractional part is dropped.\<close>

definition py_int :: "real \<Rightarrow> int" where
  "py_int v = (if v \<ge> 0 then \<lfloor>v\<rfloor> else \<lceil>v\<rceil>)"

text \<open>\<open>Patches1D.__getitem__\<close>; the two-element list is a pair.\<close>

definition getitem :: "Patches1D \<Rightarrow> int \<Rightarrow> real \<times> real" where
  "getitem p i =
     (let start_delta = of_int i * (patch_width p - patch_overlap p);
          x0 = xmin p + start_delta;
          x1 = xmin p + start_delta + patch_width p
      in if int_coords p then (of_int (py_int x0), of_int (py_int x1)) else (x0, x1))"

subsection \<open>Geometry and the point table\<close>

text \<open>
  Bounds are \<open>(xmin, ymin, xmax, ymax)\<close>. Of a shapely polygon the program reads the
  attributes \<open>bounds\<close> and \<open>area\<close> and asks which points intersect it; these three are what
  a polygon is here.
\<close>

type_synonym bounds = "real \<times> real \<times> real \<times> real"

record polygon =
  poly_bounds :: bounds
  poly_area :: real
  poly_intersects :: "real \<Rightarrow> real \<Rightarrow> bool"

text \<open>\<open>shapely.geometry.box(minx, miny, maxx, maxy)\<close>: the rectangle with these corners.\<close>

definition box :: "bounds \<Rightarrow> polygon" where
  "box b =
     (case b of (minx, miny, maxx, maxy) \<Rightarrow>
        \<lparr>poly_bounds = (min minx maxx, min miny maxy, max minx maxx, max miny maxy),
         poly_area = \<bar>maxx - minx\<bar> * \<bar>maxy - miny\<bar>,
         poly_intersects = (\<lambda>px py. min minx maxx \<le> px \<and> px \<le> max minx maxx \<and>
                                     min miny maxy \<le> py \<and> py \<le> max miny maxy)\<rparr>)"

text \<open>
  The region of interest is a shapely polygon of the dataset; the program calls
  \<open>roi.intersects(patch)\<close> and \<open>square.intersection(roi)\<close> on it, with \<open>patch\<close> and
  \<open>square\<close> the box of a tile. Both are library capabilities, taken as given.
\<close>

record roi_geom =
  roi_intersects :: "bounds \<Rightarrow> bool"
  roi_intersection :: "bounds \<Rightarrow> polygon"

text \<open>A row of the point table: the columns \<open>x\<close>, \<open>y\<close> and the column named by \<open>cell_key\<close>.\<close>

record row =
  col_x :: real
  col_y :: real
  col_cell :: int

text \<open>
  The element being tiled: an image with \<open>len(coords["x"])\<close> and \<open>len(coords["y"])\<close>, a
  point table, or anything else.
\<close>

datatype element = SpatialImage nat nat | DataFrame "row list" | OtherElement

fun list_min :: "real list \<Rightarrow> real" where
  "list_min [] = 0"
| "list_min [v] = v"
| "list_min (v # vs) = min v (list_min vs)"

fun list_max :: "real list \<Rightarrow> real" where
  "list_max [] = 0"
| "list_max [v] = v"
| "list_max (v # vs) = max v (list_max vs)"

text \<open>
  The first branches of \<open>Patches2D.__init__\<close>: the span, \<open>tight\<close> and \<open>int_coords\<close> of the
  element, as \<open>(xmin, ymin, xmax, ymax, tight, int_coords)\<close>. The minimum of an empty
  column is NaN, on which \<open>ceil\<close> raises \<open>ValueError\<close> in \<open>Patches1D.count\<close>; an
  unrecognised element raises \<open>ValueError\<close> at once.
\<close>

definition footprint :: "element \<Rightarrow> error + (real \<times> real \<times> real \<times> real \<times> bool \<times> bool)" where
  "footprint el =
     (case el of
        SpatialImage nx ny \<Rightarrow> Inr (0, 0, of_nat nx, of_nat ny, False, True)
      | DataFrame df \<Rightarrow>
          if df = [] then Inl ValueError
          else Inr (list_min (map col_x df), list_min (map col_y df),
                    list_max (map col_x df), list_max (map col_y df), True, False)
      | OtherElement \<Rightarrow> Inl ValueError)"

subsection \<open>\<open>Patches2D\<close>\<close>

text \<open>
  The attributes of a \<open>Patches2D\<close> object; \<open>ilocs\<close> is \<open>_ilocs\<close>, and the attributes
  that share a name with one of \<open>Patches1D\<close> carry the suffix \<open>_2d\<close>.
\<close>

record Patches2D =
  element :: element
  patch_x :: Patches1D
  patch_y :: Patches1D
  patch_width_2d :: real
  patch_overlap_2d :: real
  tight :: bool
  int_coords_2d :: bool
  roi :: "roi_geom option"
  ilocs :: "(int \<times> int) list"

text \<open>\<open>Patches2D.pair_indices\<close>: \<open>divmod\<close> raises on a zero divisor.\<close>

definition pair_indices :: "Patches2D \<Rightarrow> int \<Rightarrow> error + (int \<times> int)" where
  "pair_indices s i =
     (if count_stored (patch_x s) = 0 then Inl ZeroDivisionError
      else Inr (i mod count_stored (patch_x s), i div count_stored (patch_x s)))"

text \<open>\<open>Patches2D.iloc\<close>.\<close>

definition iloc :: "Patches2D \<Rightarrow> int \<Rightarrow> int \<Rightarrow> bounds" where
  "iloc s ix iy =
     (case getitem (patch_x s) ix of (x0, x1) \<Rightarrow>
      case getitem (patch_y s) iy of (y0, y1) \<Rightarrow> (x0, y0, x1, y1))"

text \<open>
  The loop that fills \<open>_ilocs\<close>, over the indices still to visit, with the list built so
  far.
\<close>

fun select_ilocs :: "Patches2D \<Rightarrow> int list \<Rightarrow> (int \<times> int) list \<Rightarrow> error + (int \<times> int) list" where
  "select_ilocs s [] acc = Inr acc"
| "select_ilocs s (i # rest) acc =
     (case pair_indices s i of
        Inl e \<Rightarrow> Inl e
      | Inr (ix, iy) \<Rightarrow>
          (if (case roi s of None \<Rightarrow> True | Some r \<Rightarrow> roi_intersects r (iloc s ix iy))
           then select_ilocs s rest (acc @ [(ix, iy)])
           else select_ilocs s rest acc))"

text \<open>
  The tight-mode block of the constructor: both axes are updated to the larger of the two
  tight widths; the first failing \<open>update\<close> ends the constructor.
\<close>

definition tighten ::
  "bool \<Rightarrow> real \<Rightarrow> int \<Rightarrow> int \<Rightarrow> Patches1D \<Rightarrow> Patches1D \<Rightarrow> error + (real \<times> Patches1D \<times> Patches1D)" where
  "tighten tgt w width_x width_y px py =
     (if tgt then
        (let w' = of_int (max width_x width_y)
         in case update px w' of
              (Inl e, _) \<Rightarrow> Inl e
            | (Inr _, px') \<Rightarrow>
                (case update py w' of
                   (Inl e, _) \<Rightarrow> Inl e
                 | (Inr _, py') \<Rightarrow> Inr (w', px', py')))
      else Inr (w, px, py))"

text \<open>
  \<open>Patches2D.__init__\<close>, given the element found under \<open>element_name\<close> and the region of
  interest of the dataset, if it has one.
\<close>

definition Patches2D_init :: "element \<Rightarrow> real \<Rightarrow> real \<Rightarrow> roi_geom option \<Rightarrow> error + Patches2D" where
  "Patches2D_init el w ov r =
     (case footprint el of
        Inl e \<Rightarrow> Inl e
      | Inr (x0, y0, x1, y1, tgt, ic) \<Rightarrow>
     (case Patches1D_init x0 x1 w ov ic of
        Inl e \<Rightarrow> Inl e
      | Inr px \<Rightarrow>
     (case Patches1D_init y0 y1 w ov ic of
        Inl e \<Rightarrow> Inl e
      | Inr py \<Rightarrow>
     (if \<not> w > ov then Inl AssertionError
      else
     (case tight_width px of
        Inl e \<Rightarrow> Inl e
      | Inr width_x \<Rightarrow>
     (case tight_width py of
        Inl e \<Rightarrow> Inl e
      | Inr width_y \<Rightarrow>
     (case tighten tgt w width_x width_y px py of
        Inl e \<Rightarrow> Inl e
      | Inr (w', px', py') \<Rightarrow>
          (let s = \<lparr>element = el, patch_x = px', patch_y = py', patch_width_2d = w',
                    patch_overlap_2d = ov, tight = tgt, int_coords_2d = ic, roi = r,
                    ilocs = []\<rparr>
           in case select_ilocs s
                     (map int [0..<nat (count_stored px' * count_stored py')]) [] of
                Inl e \<Rightarrow> Inl e
              | Inr l \<Rightarrow> Inr (s\<lparr>ilocs := l\<rparr>)))))))))"

text \<open>
  \<open>self[i]\<close> for an index out of \<open>range(len(self))\<close>, which is how \<open>polygon\<close>,
  \<open>polygons\<close> and \<open>write\<close> call it.
\<close>

definition bbox_at :: "Patches2D \<Rightarrow> nat \<Rightarrow> bounds" where
  "bbox_at s i = (case ilocs s ! i of (ix, iy) \<Rightarrow> iloc s ix iy)"

text \<open>\<open>Patches2D.polygon\<close> and the property \<open>polygons\<close>.\<close>

definition polygon_at :: "Patches2D \<Rightarrow> nat \<Rightarrow> polygon" where
  "polygon_at s i =
     (case roi s of
        None \<Rightarrow> box (bbox_at s i)
      | Some r \<Rightarrow> roi_intersection r (bbox_at s i))"

definition polygons :: "Patches2D \<Rightarrow> polygon list" where
  "polygons s = map (polygon_at s) [0..<length (ilocs s)]"

subsection \<open>\<open>Patches2D.patchify_transcripts\<close>\<close>

text \<open>The boolean mask of line 177, applied to a table.\<close>

definition bbox_filter :: "bounds \<Rightarrow> row list \<Rightarrow> row list" where
  "bbox_filter b df =
     (case b of (tx0, ty0, tx1, ty1) \<Rightarrow>
        filter (\<lambda>r. col_x r \<ge> tx0 \<and> col_x r \<le> tx1 \<and> col_y r \<ge> ty0 \<and> col_y r \<le> ty1) df)"

text \<open>
  The loop over \<open>enumerate(self.polygons)\<close>, with \<open>use_prior\<close> false. Its result is the
  list of the tables written, the \<open>i\<close>-th one to \<open>baysor_dir/i\<close>. The variable \<open>df\<close> is
  assigned in the loop body, so each iteration starts from the table the previous one
  left. In the first branch the rows kept are those whose point the STRtree query with
  the predicate \<open>intersects\<close> returns for the patch.
\<close>

fun patchify_loop :: "polygon list \<Rightarrow> row list \<Rightarrow> row list list" where
  "patchify_loop [] df = []"
| "patchify_loop (patch # rest) df =
     (let df' = bbox_filter (poly_bounds patch) df
      in if poly_area patch < poly_area (box (poly_bounds patch))
         then filter (\<lambda>r. poly_intersects patch (col_x r) (col_y r)) df'
                # patchify_loop rest df'
         else df' # patchify_loop rest df')"

text \<open>The replacement of \<open>unassigned_value\<close> by 0 in the column \<open>cell_key\<close>.\<close>

definition replace_unassigned :: "bool \<Rightarrow> int option \<Rightarrow> row list \<Rightarrow> row list" where
  "replace_unassigned cell_key unassigned_value df =
     (case unassigned_value of
        None \<Rightarrow> df
      | Some u \<Rightarrow>
          if cell_key
          then map (\<lambda>r. if col_cell r = u then r\<lparr>col_cell := 0\<rparr> else r) df
          else df)"

text \<open>
  \<open>patchify_transcripts\<close> with \<open>use_prior\<close> false: \<open>cell_key\<close> tells whether a column name
  was given. The method is written for a point table; on another element the result is
  \<open>None\<close>, what pandas expressions do there being outside this model.
\<close>

definition patchify_transcripts :: "Patches2D \<Rightarrow> bool \<Rightarrow> int option \<Rightarrow> row list list option" where
  "patchify_transcripts s cell_key unassigned_value =
     (case element s of
        DataFrame df \<Rightarrow>
          Some (patchify_loop (polygons s) (replace_unassigned cell_key unassigned_value df))
      | _ \<Rightarrow> None)"

section \<open>Properties of \<open>Patches1D\<close>\<close>








text \<open>
  C9. \<open>update\<close> is not atomic: when the count recomputed with the new width differs from
  the stored one, the call raises \<open>AssertionError\<close> and leaves the object with the new
  width (and the old stored count).
\<close>

theorem update_not_atomic:
  "count (p\<lparr>patch_width := w\<rparr>) = Inr c \<Longrightarrow> c \<noteq> count_stored p \<Longrightarrow>
     update p w = (Inl AssertionError, p\<lparr>patch_width := w\<rparr>)"
  by (auto simp: update_def Let_def)

theorem update_not_atomic_witness:
  "Patches1D_init 0 100 30 10 False =
     Inr \<lparr>xmin = 0, xmax = 100, delta = 100, patch_width = 30, patch_overlap = 10,
          int_coords = False, count_stored = 5\<rparr> \<and>
   update \<lparr>xmin = 0, xmax = 100, delta = 100, patch_width = 30, patch_overlap = 10,
          int_coords = False, count_stored = 5\<rparr> 20 =
     (Inl AssertionError,
      \<lparr>xmin = 0, xmax = 100, delta = 100, patch_width = 20, patch_overlap = 10,
          int_coords = False, count_stored = 5\<rparr>)"
  using update_not_atomic [where p = "\<lparr>xmin = 0, xmax = 100, delta = 100, patch_width = 30,
          patch_overlap = 10, int_coords = False, count_stored = 5\<rparr>" and w = 20 and c = 9]
  by (simp add: Patches1D_init_def count_def)










section \<open>Properties of \<open>Patches2D\<close> and of the sharding\<close>

lemmas init_defs = Patches2D_init_def footprint_def Patches1D_init_def count_def tight_width_def
  tighten_def update_def pair_indices_def iloc_def getitem_def Let_def

text \<open>
  C2. The claim is that \<open>update\<close> called with \<open>tight_width()\<close> keeps the count. On the
  span \<open>[0, 10.5]\<close> with width 1.5 and overlap 0 the count is 7 and the tight width is
  \<open>ceil(10.5 / 7) = 2\<close>; with width 2 the count is \<open>ceil(10.5 / 2) = 6\<close>, so the assertion
  of \<open>update\<close> fails, and so does the construction of the tiling of a point table with
  this span.
\<close>

theorem tight_update_fails:
  "Patches1D_init 0 (21 / 2) (3 / 2) 0 False =
     Inr \<lparr>xmin = 0, xmax = 21 / 2, delta = 21 / 2, patch_width = 3 / 2, patch_overlap = 0,
          int_coords = False, count_stored = 7\<rparr> \<and>
   tight_width \<lparr>xmin = 0, xmax = 21 / 2, delta = 21 / 2, patch_width = 3 / 2, patch_overlap = 0,
          int_coords = False, count_stored = 7\<rparr> = Inr 2 \<and>
   fst (update \<lparr>xmin = 0, xmax = 21 / 2, delta = 21 / 2, patch_width = 3 / 2, patch_overlap = 0,
          int_coords = False, count_stored = 7\<rparr> 2) = Inl AssertionError \<and>
   Patches2D_init (DataFrame [\<lparr>col_x = 0, col_y = 0, col_cell = 0\<rparr>,
                              \<lparr>col_x = 21 / 2, col_y = 0, col_cell = 0\<rparr>]) (3 / 2) 0 None
     = Inl AssertionError"
  by (simp add: init_defs)

text \<open>
  C3. The claim is that a width equal to the overlap is rejected by the validation of the
  constructor. On an image of 100 by 100 pixels with width and overlap 10 the
  constructor of \<open>Patches1D\<close> divides by zero in \<open>count\<close>, before the assertion on
  the width is reached.
\<close>

theorem equal_width_overlap_divides_by_zero:
  "Patches2D_init (SpatialImage 100 100) 10 10 None = Inl ZeroDivisionError"
  by (simp add: init_defs)

text \<open>
  C1. The claim is that the rows written for tile \<open>i\<close> are the rows of the whole table
  that lie in the bounds of tile \<open>i\<close>. On the table of the two points \<open>(0, 0)\<close> and
  \<open>(100, 0)\<close>, with width 60 and overlap 10, there are two tiles; the second has the
  bounds \<open>(45, 0, 100, 55)\<close>, which hold the point \<open>(100, 0)\<close>, and its output is empty:
  the loop filters the table left by the first tile.
\<close>

theorem patchify_uses_previous_filter:
  "case Patches2D_init (DataFrame [\<lparr>col_x = 0, col_y = 0, col_cell = 0\<rparr>,
                                   \<lparr>col_x = 100, col_y = 0, col_cell = 0\<rparr>]) 60 10 None of
     Inl e \<Rightarrow> False
   | Inr s \<Rightarrow>
       ilocs s = [(0, 0), (1, 0)] \<and>
       bbox_at s 1 = (45, 0, 100, 55) \<and>
       poly_bounds (polygons s ! 1) = (45, 0, 100, 55) \<and>
       bbox_filter (poly_bounds (polygons s ! 1))
         [\<lparr>col_x = 0, col_y = 0, col_cell = 0\<rparr>, \<lparr>col_x = 100, col_y = 0, col_cell = 0\<rparr>]
         = [\<lparr>col_x = 100, col_y = 0, col_cell = 0\<rparr>] \<and>
       patchify_transcripts s False None = Some [[\<lparr>col_x = 0, col_y = 0, col_cell = 0\<rparr>], []]"
  by (simp add: init_defs bbox_at_def polygons_def polygon_at_def box_def bbox_filter_def
        patchify_transcripts_def replace_unassigned_def upt_conv_Cons)

lemma patchify_loop_clipped:
  "i < length ps \<Longrightarrow>
   poly_area (ps ! i) < poly_area (box (poly_bounds (ps ! i))) \<Longrightarrow>
   \<not> poly_intersects (ps ! i) (col_x r) (col_y r) \<Longrightarrow>
   r \<notin> set (patchify_loop ps df ! i)"
proof (induction ps arbitrary: df i)
  case Nil
  then show ?case by simp
next
  case (Cons p ps)
  show ?case
  proof (cases i)
    case 0
    with Cons.prems show ?thesis by (simp add: Let_def)
  next
    case (Suc j)
    with Cons.prems Cons.IH [of j] show ?thesis by (simp add: Let_def)
  qed
qed

text \<open>
  C8. In the output of a tile whose clipped polygon has an area strictly smaller than that
  of its bounding box, no row appears whose point the clipped polygon does not intersect;
  in particular none that lies in the bounding box and outside the polygon.
\<close>

theorem clipped_tile_excludes_outside:
  assumes "patchify_transcripts s cell_key unassigned_value = Some outs"
    and "i < length (ilocs s)"
    and "poly_area (polygon_at s i) < poly_area (box (poly_bounds (polygon_at s i)))"
    and "\<not> poly_intersects (polygon_at s i) (col_x r) (col_y r)"
  shows "r \<notin> set (outs ! i)"
proof -
  from assms(1) obtain df where
    outs: "outs = patchify_loop (polygons s) (replace_unassigned cell_key unassigned_value df)"
    by (auto simp: patchify_transcripts_def split: element.splits)
  have "polygons s ! i = polygon_at s i" and "i < length (polygons s)"
    using assms(2) by (simp_all add: polygons_def)
  with assms(3,4) show ?thesis
    unfolding outs using patchify_loop_clipped [of i "polygons s" r] by simp
qed

theorem clipped_tile_excludes_outside_witness:
  "case Patches2D_init
          (DataFrame [\<lparr>col_x = 0, col_y = 0, col_cell = 0\<rparr>, \<lparr>col_x = 10, col_y = 0, col_cell = 0\<rparr>,
                      \<lparr>col_x = 0, col_y = 10, col_cell = 0\<rparr>, \<lparr>col_x = 8, col_y = 8, col_cell = 0\<rparr>])
          20 0
          (Some \<lparr>roi_intersects = (\<lambda>b. True),
                 roi_intersection = (\<lambda>b. \<lparr>poly_bounds = (0, 0, 10, 10), poly_area = 50,
                    poly_intersects = (\<lambda>px py. 0 \<le> px \<and> 0 \<le> py \<and> px + py \<le> 10)\<rparr>)\<rparr>) of
     Inl e \<Rightarrow> False
   | Inr s \<Rightarrow>
       ilocs s = [(0, 0)] \<and> bbox_at s 0 = (0, 0, 10, 10) \<and>
       patchify_transcripts s False None =
         Some [[\<lparr>col_x = 0, col_y = 0, col_cell = 0\<rparr>, \<lparr>col_x = 10, col_y = 0, col_cell = 0\<rparr>,
                \<lparr>col_x = 0, col_y = 10, col_cell = 0\<rparr>]] \<and>
       \<lparr>col_x = 8, col_y = 8, col_cell = 0\<rparr> \<notin> set (the (patchify_transcripts s False None) ! 0)"
proof -
  define el where "el = DataFrame [\<lparr>col_x = 0, col_y = 0, col_cell = 0\<rparr>, \<lparr>col_x = 10, col_y = 0, col_cell = 0\<rparr>,
                      \<lparr>col_x = 0, col_y = 10, col_cell = 0\<rparr>, \<lparr>col_x = 8, col_y = 8, col_cell = 0\<rparr>]"
  define tri where "tri = \<lparr>roi_intersects = (\<lambda>b::bounds. True),
                 roi_intersection = (\<lambda>b::bounds. \<lparr>poly_bounds = (0, 0, 10, 10), poly_area = 50,
                    poly_intersects = (\<lambda>px py. 0 \<le> px \<and> 0 \<le> py \<and> px + py \<le> (10::real))\<rparr>)\<rparr>"
  define s where "s = \<lparr>element = el,
       patch_x = \<lparr>xmin = 0, xmax = 10, delta = 10, patch_width = 10, patch_overlap = 0,
                  int_coords = False, count_stored = 1\<rparr>,
       patch_y = \<lparr>xmin = 0, xmax = 10, delta = 10, patch_width = 10, patch_overlap = 0,
                  int_coords = False, count_stored = 1\<rparr>,
       patch_width_2d = 10, patch_overlap_2d = 0, tight = True, int_coords_2d = False,
       roi = Some tri, ilocs = [(0, 0)]\<rparr>"
  have init: "Patches2D_init el 20 0 (Some tri) = Inr s"
    by (simp add: init_defs el_def tri_def s_def)
  have b: "bbox_at s 0 = (0, 0, 10, 10)"
    by (simp add: s_def bbox_at_def iloc_def getitem_def)
  have p: "polygon_at s 0 = \<lparr>poly_bounds = (0, 0, 10, 10), poly_area = 50,
                    poly_intersects = (\<lambda>px py. 0 \<le> px \<and> 0 \<le> py \<and> px + py \<le> 10)\<rparr>"
    by (simp add: polygon_at_def s_def tri_def)
  have out: "patchify_transcripts s False None =
         Some [[\<lparr>col_x = 0, col_y = 0, col_cell = 0\<rparr>, \<lparr>col_x = 10, col_y = 0, col_cell = 0\<rparr>,
                \<lparr>col_x = 0, col_y = 10, col_cell = 0\<rparr>]]"
  proof -
    have il: "ilocs s = [(0, 0)]" and e: "element s = el"
      by (simp_all add: s_def)
    have polys: "polygons s = [polygon_at s 0]"
      by (simp add: polygons_def il)
    show ?thesis
      by (simp add: patchify_transcripts_def e el_def polys p replace_unassigned_def
            bbox_filter_def box_def)
  qed
  have ilocs_s: "ilocs s = [(0, 0)]"
    by (simp add: s_def)
  have "\<lparr>col_x = 8, col_y = 8, col_cell = 0\<rparr> \<notin> set (the (patchify_transcripts s False None) ! 0)"
    using clipped_tile_excludes_outside [OF out, of 0 "\<lparr>col_x = 8, col_y = 8, col_cell = 0\<rparr>"]
    by (simp add: p box_def out ilocs_s)
  with init b out ilocs_s show ?thesis
    unfolding el_def tri_def by simp
qed

subsection \<open>Covering of the bounding box\<close>


















end
